theory Spec2Isabelle
  imports Main
begin

section \<open>The markdown rendering core of wiki-go (internal/utils/markdown.go)\<close>

text \<open>
  Go strings are byte sequences; they are modelled as \<^typ>\<open>string\<close> (a list of
  \<^typ>\<open>char\<close>, one per byte). The functions of Go's standard library and of the
  goldmark library that \<^verbatim>\<open>markdown.go\<close> calls are written out first, for the build
  whose path separator is \<^verbatim>\<open>/\<close>; then the two functions of the file that do the
  work, \<^verbatim>\<open>renderLink\<close> and \<^verbatim>\<open>RenderMarkdownWithPath\<close>, and the two entries
  \<^verbatim>\<open>RenderMarkdown\<close> and \<^verbatim>\<open>RenderMarkdownFile\<close>.
\<close>

subsection \<open>Package strings\<close>

text \<open>
  \<^verbatim>\<open>strings.ToLower\<close> on a string of ASCII bytes maps \<^verbatim>\<open>A..Z\<close> to \<^verbatim>\<open>a..z\<close> and keeps
  every other byte. (On bytes from 0x80 on, Go decodes UTF-8 and maps runes; that part is
  not modelled, and every string evaluated below is ASCII.)
\<close>

definition lowerByte :: "char \<Rightarrow> char" where
  "lowerByte c =
     (if (65::nat) \<le> of_char c \<and> (of_char c :: nat) \<le> 90
      then char_of ((of_char c :: nat) + 32) else c)"

definition ToLower :: "string \<Rightarrow> string" where
  "ToLower s = map lowerByte s"

fun HasPrefix :: "string \<Rightarrow> string \<Rightarrow> bool" where
  "HasPrefix s [] = True"
| "HasPrefix [] (p # ps) = False"
| "HasPrefix (c # cs) (p # ps) = (c = p \<and> HasPrefix cs ps)"

definition HasSuffix :: "string \<Rightarrow> string \<Rightarrow> bool" where
  "HasSuffix s suffix = HasPrefix (rev s) (rev suffix)"

definition TrimPrefix :: "string \<Rightarrow> string \<Rightarrow> string" where
  "TrimPrefix s prefix = (if HasPrefix s prefix then drop (length prefix) s else s)"

text \<open>\<^verbatim>\<open>strings.Join(elems, sep)\<close>.\<close>

fun Join_strings :: "string list \<Rightarrow> string \<Rightarrow> string" where
  "Join_strings [] sep = []"
| "Join_strings [e] sep = e"
| "Join_strings (e # es) sep = e @ sep @ Join_strings es sep"

text \<open>
  \<^verbatim>\<open>strings.ReplaceAll(s, "\\", "/")\<close>: both strings are one byte long, so the
  replacement is byte by byte.
\<close>

definition backslashesToSlashes :: "string \<Rightarrow> string" where
  "backslashesToSlashes s = map (\<lambda>c. if c = CHR 0x5C then CHR ''/'' else c) s"

subsection \<open>Package path/filepath, separator \<^verbatim>\<open>/\<close>, no volume names\<close>

definition Separator :: char where
  "Separator = CHR ''/''"

definition sepAt :: "string \<Rightarrow> bool" where
  "sepAt xs = (case xs of [] \<Rightarrow> False | x # _ \<Rightarrow> x = Separator)"

definition endOrSep :: "string \<Rightarrow> bool" where
  "endOrSep xs = (xs = [] \<or> sepAt xs)"

text \<open>
  The inner loop of \<^verbatim>\<open>Clean\<close> at a \<^verbatim>\<open>..\<close> element: the write index \<open>w\<close>, already
  decremented once, moves left while it is beyond \<open>dotdot\<close> and not on a separator.
\<close>

function backtrack :: "string \<Rightarrow> nat \<Rightarrow> nat \<Rightarrow> nat" where
  "backtrack out dotdot w =
     (if dotdot < w \<and> out ! w \<noteq> Separator then backtrack out dotdot (w - 1) else w)"
  by pat_completeness auto
termination
  by (relation "measure (\<lambda>(out, dotdot, w). w)") auto

declare backtrack.simps [simp del]

text \<open>
  The main loop of \<^verbatim>\<open>Clean\<close>. The first list is the unread rest of the path
  (\<^verbatim>\<open>path[r:]\<close>), \<open>out\<close> is the buffer written so far (\<^verbatim>\<open>out.w\<close> is its length) and
  \<open>dotdot\<close> the index where \<^verbatim>\<open>..\<close> must stop. The four cases of the \<^verbatim>\<open>switch\<close> are
  in the order of the source: empty element, \<^verbatim>\<open>.\<close>, \<^verbatim>\<open>..\<close>, real element.
\<close>

function cleanLoop :: "bool \<Rightarrow> string \<Rightarrow> string \<Rightarrow> nat \<Rightarrow> string" where
  "cleanLoop rooted [] out dotdot = out"
| "cleanLoop rooted (c # rest) out dotdot =
     (if c = Separator then cleanLoop rooted rest out dotdot
      else if c = CHR ''.'' \<and> endOrSep rest then cleanLoop rooted rest out dotdot
      else if c = CHR ''.'' \<and> \<not> endOrSep rest \<and> hd rest = CHR ''.'' \<and> endOrSep (tl rest) then
        (if dotdot < length out then
           cleanLoop rooted (tl rest) (take (backtrack out dotdot (length out - 1)) out) dotdot
         else if \<not> rooted then
           cleanLoop rooted (tl rest)
             ((if out \<noteq> [] then out @ [Separator] else out) @ ''..'')
             (length ((if out \<noteq> [] then out @ [Separator] else out) @ ''..''))
         else cleanLoop rooted (tl rest) out dotdot)
      else
        cleanLoop rooted (dropWhile (\<lambda>x. x \<noteq> Separator) rest)
          ((if rooted \<and> length out \<noteq> 1 \<or> \<not> rooted \<and> length out \<noteq> 0
            then out @ [Separator] else out)
           @ c # takeWhile (\<lambda>x. x \<noteq> Separator) rest)
          dotdot)"
  by pat_completeness auto
termination
  by (relation "measure (\<lambda>(rooted, path, out, dotdot). length path)")
    (simp_all (no_asm) add: less_Suc_eq_le length_dropWhile_le)

declare cleanLoop.simps [simp del]

definition Clean :: "string \<Rightarrow> string" where
  "Clean path =
     (if path = [] then ''.''
      else
        (let rooted = sepAt path;
             out = (if rooted then cleanLoop True (tl path) [Separator] 1
                    else cleanLoop False path [] 0)
         in if out = [] then ''.'' else out))"

text \<open>
  \<^verbatim>\<open>Dir\<close>: the index \<open>i\<close> runs back from the end to the last separator, and
  \<^verbatim>\<open>path[:i+1]\<close>, the path up to and including that separator, is cleaned.
\<close>

definition Dir :: "string \<Rightarrow> string" where
  "Dir path = Clean (rev (dropWhile (\<lambda>x. x \<noteq> Separator) (rev path)))"

text \<open>
  \<^verbatim>\<open>Base\<close>: the empty path gives \<^verbatim>\<open>.\<close>; trailing separators are stripped; the last
  element is returned, or the separator when nothing is left.
\<close>

definition Base :: "string \<Rightarrow> string" where
  "Base path =
     (if path = [] then ''.''
      else
        (let stripped = rev (dropWhile (\<lambda>x. x = Separator) (rev path));
             lastElem = rev (takeWhile (\<lambda>x. x \<noteq> Separator) (rev stripped))
         in if lastElem = [] then [Separator] else lastElem))"

text \<open>\<^verbatim>\<open>Join\<close>: from the first non-empty element on, joined with the separator and cleaned.\<close>

fun Join :: "string list \<Rightarrow> string" where
  "Join [] = []"
| "Join (e # es) = (if e \<noteq> [] then Clean (Join_strings (e # es) [Separator]) else Join es)"

text \<open>
  \<^verbatim>\<open>Rel\<close> fails with \<^verbatim>\<open>errors.New("Rel: can't make " + targpath + " relative to " +
  basepath)\<close>; the error value keeps the two paths of that message. \<^verbatim>\<open>markdown.go\<close> calls
  \<^verbatim>\<open>Rel\<close> with one base path only, \<^verbatim>\<open>data/documents\<close>.
\<close>

datatype RelError = CantMakeRelative string string

definition slice :: "string \<Rightarrow> nat \<Rightarrow> nat \<Rightarrow> string" where
  "slice s lo hi = take (hi - lo) (drop lo s)"

text \<open>The inner loops of \<^verbatim>\<open>Rel\<close>: the index moves right to the next separator or the end.\<close>

function scanToSep :: "string \<Rightarrow> nat \<Rightarrow> nat" where
  "scanToSep s i = (if i < length s \<and> s ! i \<noteq> Separator then scanToSep s (Suc i) else i)"
  by pat_completeness auto
termination
  by (relation "measure (\<lambda>(s, i). length s - i)") auto

declare scanToSep.simps [simp del]

lemma scanToSep_ge: "i \<le> scanToSep s i"
proof (induction s i rule: scanToSep.induct)
  case (1 s i)
  show ?case
  proof (cases "i < length s \<and> s ! i \<noteq> Separator")
    case True
    with "1.IH" have "Suc i \<le> scanToSep s (Suc i)" by simp
    with True show ?thesis by (subst scanToSep.simps) simp
  next
    case False
    then show ?thesis by (subst scanToSep.simps) auto
  qed
qed

text \<open>
  The outer loop of \<^verbatim>\<open>Rel\<close>, which positions \<^verbatim>\<open>base[b0:bi]\<close> and \<^verbatim>\<open>targ[t0:ti]\<close> at
  the first differing elements; it returns \<open>(b0, bi, t0, ti)\<close>.
\<close>

function relLoop :: "string \<Rightarrow> string \<Rightarrow> nat \<Rightarrow> nat \<Rightarrow> nat \<Rightarrow> nat \<Rightarrow> nat \<times> nat \<times> nat \<times> nat" where
  "relLoop base targ b0 bi t0 ti =
     (if bi < length base \<and> ti < length targ then
        (if slice targ t0 (scanToSep targ ti) \<noteq> slice base b0 (scanToSep base bi)
         then (b0, scanToSep base bi, t0, scanToSep targ ti)
         else relLoop base targ
                (if scanToSep base bi < length base then Suc (scanToSep base bi) else scanToSep base bi)
                (if scanToSep base bi < length base then Suc (scanToSep base bi) else scanToSep base bi)
                (if scanToSep targ ti < length targ then Suc (scanToSep targ ti) else scanToSep targ ti)
                (if scanToSep targ ti < length targ then Suc (scanToSep targ ti) else scanToSep targ ti))
      else (b0, bi, t0, ti))"
  by pat_completeness auto
termination
proof (relation "measure (\<lambda>(base, targ, b0, bi, t0, ti). length base - bi)")
  show "wf (measure (\<lambda>(base, targ, b0, bi, t0, ti). length base - bi))"
    by simp
next
  fix base targ :: string and b0 bi t0 ti :: nat
  assume "bi < length base \<and> ti < length targ"
  then have "bi < length base" by simp
  moreover have "bi \<le> scanToSep base bi" by (rule scanToSep_ge)
  ultimately show "((base, targ,
        if scanToSep base bi < length base then Suc (scanToSep base bi) else scanToSep base bi,
        if scanToSep base bi < length base then Suc (scanToSep base bi) else scanToSep base bi,
        if scanToSep targ ti < length targ then Suc (scanToSep targ ti) else scanToSep targ ti,
        if scanToSep targ ti < length targ then Suc (scanToSep targ ti) else scanToSep targ ti),
       base, targ, b0, bi, t0, ti)
      \<in> measure (\<lambda>(base, targ, b0, bi, t0, ti). length base - bi)"
    by (simp (no_asm_simp)) arith
qed

declare relLoop.simps [simp del]

definition Rel :: "string \<Rightarrow> string \<Rightarrow> RelError + string" where
  "Rel basepath targpath =
     (let base = Clean basepath; targ = Clean targpath in
      if targ = base then Inr ''.''
      else
        (let base = (if base = ''.'' then [] else base) in
         if sepAt base \<noteq> sepAt targ then Inl (CantMakeRelative targpath basepath)
         else
           (case relLoop base targ 0 0 0 0 of
              (b0, bi, t0, ti) \<Rightarrow>
                if slice base b0 bi = ''..'' then Inl (CantMakeRelative targpath basepath)
                else if b0 \<noteq> length base then
                  Inr (''..''
                       @ concat (replicate (count_list (drop b0 base) Separator) (Separator # ''..''))
                       @ (if t0 \<noteq> length targ then Separator # drop t0 targ else []))
                else Inr (drop t0 targ))))"

subsection \<open>goldmark: \<^verbatim>\<open>util.EscapeHTML\<close>, the walk status, the link node, the writer\<close>

text \<open>
  \<^verbatim>\<open>util.EscapeHTML\<close> replaces the four bytes of goldmark's escape table and copies every
  other byte.
\<close>

definition escapeByte :: "char \<Rightarrow> string" where
  \<open>escapeByte c =
     (if c = CHR 0x22 then ''&quot;''
      else if c = CHR ''&'' then ''&amp;''
      else if c = CHR ''<'' then ''&lt;''
      else if c = CHR ''>'' then ''&gt;''
      else [c])\<close>

definition EscapeHTML :: "string \<Rightarrow> string" where
  "EscapeHTML v = concat (map escapeByte v)"

datatype WalkStatus = WalkStop | WalkSkipChildren | WalkContinue

text \<open>
  A link node, as far as \<^verbatim>\<open>renderLink\<close> reads it: the field \<^verbatim>\<open>Destination\<close> and the
  method \<^verbatim>\<open>Text(source)\<close>, which reads the text of the node's children out of the
  source bytes.
\<close>

record Link =
  Destination :: string
  Text :: "string \<Rightarrow> string"

text \<open>
  \<^verbatim>\<open>util.BufWriter\<close> is an interface: the writer is a value of any type \<open>'w\<close> with its
  method \<^verbatim>\<open>WriteString\<close>, which returns the writer after the call and the error, if any.
\<close>

type_synonym ('w, 'e) WriteString = "'w \<Rightarrow> string \<Rightarrow> 'w \<times> 'e option"

text \<open>The writer over the \<^verbatim>\<open>bytes.Buffer\<close> of \<^verbatim>\<open>RenderMarkdownWithPath\<close>: it appends.\<close>

definition bufferWriteString :: "(string, 'e) WriteString" where
  "bufferWriteString w s = (w @ s, None)"

subsection \<open>\<^verbatim>\<open>renderLink\<close> (lines 43 to 72)\<close>

definition renderLink ::
  "('w, 'e) WriteString \<Rightarrow> 'w \<Rightarrow> string \<Rightarrow> Link \<Rightarrow> bool \<Rightarrow> 'w \<times> WalkStatus \<times> 'e option" where
  \<open>renderLink WriteString w source node entering =
     (if \<not> entering then
        (case WriteString w ''</a>'' of
           (w', Some err) \<Rightarrow> (w', WalkStop, Some err)
         | (w', None) \<Rightarrow> (w', WalkContinue, None))
      else
        (let destination = Destination node;
             text = Text node source;
             destinationLower = ToLower destination
         in
           if HasPrefix destinationLower ''/api/files/'' \<and> HasSuffix destinationLower ''.pdf'' then
             (let destination = TrimPrefix destination ''/api/files'' in
                case WriteString w
                       (''<a href="'' @ EscapeHTML (Dir destination) @ ''?mode=pdf&file=''
                        @ Base destination @ ''">'' @ text @ ''</a>'') of
                  (w', Some err) \<Rightarrow> (w', WalkStop, Some err)
                | (w', None) \<Rightarrow> (w', WalkSkipChildren, None))
           else
             (case WriteString w
                     (''<a href="'' @ EscapeHTML destination @ ''" target="_blank">''
                      @ text @ ''</a>'') of
                (w', Some err) \<Rightarrow> (w', WalkStop, Some err)
              | (w', None) \<Rightarrow> (w', WalkSkipChildren, None))))\<close>

subsection \<open>The collaborators of \<^verbatim>\<open>RenderMarkdownWithPath\<close>\<close>

text \<open>
  \<^verbatim>\<open>RenderMarkdownWithPath\<close> calls the packages \<^verbatim>\<open>frontmatter\<close> and \<^verbatim>\<open>goldext\<close> and the
  goldmark engine. They are parameters of the model, gathered in one record. Each of them
  may read and change state of its own (the placeholder tables of \<^verbatim>\<open>goldext\<close>, for
  one), so each takes the state \<open>'s\<close> of the collaborators and returns it; what
  \<^verbatim>\<open>RenderMarkdownWithPath\<close> does is to call them in sequence.

  \<^item> \<^verbatim>\<open>frontmatter.Parse(md)\<close> returns the metadata, the content without frontmatter
    and whether there is frontmatter.
  \<^item> \<^verbatim>\<open>goldext.RegisteredPreprocessors\<close> is a slice of functions, some of which may be
    \<^verbatim>\<open>nil\<close> (\<open>None\<close>).
  \<^item> \<^verbatim>\<open>frontmatter.RenderLinks\<close> returns a string and an error (\<open>None\<close> is \<^verbatim>\<open>nil\<close>).
  \<^item> \<open>Convert\<close> is \<^verbatim>\<open>markdown.Convert\<close> of the engine built at lines 169 to 192, with
    the link renderer installed: it returns what it wrote to the buffer and the text of
    its error (\<^verbatim>\<open>err.Error()\<close>), if any.
\<close>

record Metadata =
  Layout :: string

type_synonym 's PreprocessorFunc = "string \<Rightarrow> string \<Rightarrow> 's \<Rightarrow> string \<times> 's"

type_synonym 's PostProcessorFunc = "string \<Rightarrow> 's \<Rightarrow> string \<times> 's"

record 's collaborators =
  Parse :: "string \<Rightarrow> 's \<Rightarrow> (Metadata \<times> string \<times> bool) \<times> 's"
  RegisteredPreprocessors :: "'s PreprocessorFunc option list"
  RenderKanbanWithProcessors ::
    "string \<Rightarrow> 's PreprocessorFunc list \<Rightarrow> 's PostProcessorFunc list \<Rightarrow> 's \<Rightarrow> string \<times> 's"
  RenderLinks :: "string \<Rightarrow> 's \<Rightarrow> (string \<times> string option) \<times> 's"
  ProcessMarkdown :: "string \<Rightarrow> string \<Rightarrow> 's \<Rightarrow> string \<times> 's"
  Convert :: "string \<Rightarrow> 's \<Rightarrow> (string \<times> string option) \<times> 's"
  RestoreMermaidBlocks :: "string \<Rightarrow> 's \<Rightarrow> string \<times> 's"
  RestoreDirectionBlocks :: "string \<Rightarrow> 's \<Rightarrow> string \<times> 's"

text \<open>
  The calls that \<^verbatim>\<open>RenderMarkdownWithPath\<close> itself makes are logged, in order, with
  their arguments and, for the two calls that can fail, the error returned. (Calls that
  the board renderer makes to the functions handed to it are its own and are not logged.)
\<close>

datatype call =
    Call_Parse string
  | Call_RenderKanbanWithProcessors string
  | Call_RenderLinks string "string option"
  | Call_ProcessMarkdown string string
  | Call_Convert string "string option"
  | Call_RestoreMermaidBlocks string
  | Call_RestoreDirectionBlocks string

text \<open>The result of a render: the HTML returned, the collaborators' state, the calls made.\<close>

record 's rendering =
  page :: string
  final :: 's
  calls :: "call list"

subsection \<open>\<^verbatim>\<open>RenderMarkdownWithPath\<close> (lines 115 to 213)\<close>

text \<open>
  Lines 126 to 136: the loop over \<^verbatim>\<open>goldext.RegisteredPreprocessors\<close> skips \<^verbatim>\<open>nil\<close> and
  appends, for every other entry, the closure that ignores its second argument and calls
  the entry with the captured document path.
\<close>

fun wrapPreprocessors :: "'s PreprocessorFunc option list \<Rightarrow> string \<Rightarrow> 's PreprocessorFunc list" where
  "wrapPreprocessors [] docPath = []"
| "wrapPreprocessors (None # rest) docPath = wrapPreprocessors rest docPath"
| "wrapPreprocessors (Some preprocessor # rest) docPath =
     (\<lambda>md _. preprocessor md docPath) # wrapPreprocessors rest docPath"

text \<open>Lines 139 to 143: the one post-processor handed to the board renderer.\<close>

definition kanbanPostProcessor :: "'s collaborators \<Rightarrow> 's PostProcessorFunc" where
  "kanbanPostProcessor env html s =
     (case RestoreMermaidBlocks env html s of
        (result, s1) \<Rightarrow> RestoreDirectionBlocks env result s1)"

text \<open>
  Lines 165 to 212, the default pipeline, on the value \<open>md\<close> that the variable \<^verbatim>\<open>md\<close> has
  at line 165; \<open>log\<close> holds the calls made before.
\<close>

definition defaultPipeline ::
  "'s collaborators \<Rightarrow> string \<Rightarrow> string \<Rightarrow> 's \<Rightarrow> call list \<Rightarrow> 's rendering" where
  "defaultPipeline env md docPath s log =
     (case ProcessMarkdown env md docPath s of
        (md1, s1) \<Rightarrow>
          (case Convert env md1 s1 of
             ((buf, Some err), s2) \<Rightarrow>
               \<lparr>page = ''<p>Error rendering markdown with Goldmark: '' @ err @ ''</p>'',
                final = s2,
                calls = log @ [Call_ProcessMarkdown md docPath, Call_Convert md1 (Some err)]\<rparr>
           | ((buf, None), s2) \<Rightarrow>
               (case RestoreMermaidBlocks env buf s2 of
                  (htmlResult, s3) \<Rightarrow>
                    (case RestoreDirectionBlocks env htmlResult s3 of
                       (htmlResult', s4) \<Rightarrow>
                         \<lparr>page = htmlResult',
                          final = s4,
                          calls = log @ [Call_ProcessMarkdown md docPath, Call_Convert md1 None,
                                         Call_RestoreMermaidBlocks buf,
                                         Call_RestoreDirectionBlocks htmlResult]\<rparr>))))"

definition RenderMarkdownWithPath ::
  "'s collaborators \<Rightarrow> string \<Rightarrow> string \<Rightarrow> 's \<Rightarrow> 's rendering" where
  "RenderMarkdownWithPath env md docPath s =
     (case Parse env md s of
        ((metadata, contentWithoutFrontmatter, hasFrontmatter), s1) \<Rightarrow>
          if hasFrontmatter \<and> Layout metadata = ''kanban'' then
            (case RenderKanbanWithProcessors env contentWithoutFrontmatter
                    (wrapPreprocessors (RegisteredPreprocessors env) docPath)
                    [kanbanPostProcessor env] s1 of
               (kanbanHTML, s2) \<Rightarrow>
                 \<lparr>page = kanbanHTML,
                  final = s2,
                  calls = [Call_Parse md,
                           Call_RenderKanbanWithProcessors contentWithoutFrontmatter]\<rparr>)
          else if hasFrontmatter \<and> Layout metadata = ''links'' then
            (case RenderLinks env contentWithoutFrontmatter s1 of
               ((linksHTML, Some err), s2) \<Rightarrow>
                 defaultPipeline env contentWithoutFrontmatter docPath s2
                   [Call_Parse md, Call_RenderLinks contentWithoutFrontmatter (Some err)]
             | ((linksHTML, None), s2) \<Rightarrow>
                 \<lparr>page = linksHTML,
                  final = s2,
                  calls = [Call_Parse md, Call_RenderLinks contentWithoutFrontmatter None]\<rparr>)
          else
            defaultPipeline env (if hasFrontmatter then contentWithoutFrontmatter else md)
              docPath s1 [Call_Parse md])"

subsection \<open>\<^verbatim>\<open>RenderMarkdown\<close> and \<^verbatim>\<open>RenderMarkdownFile\<close>\<close>

definition RenderMarkdown :: "'s collaborators \<Rightarrow> string \<Rightarrow> 's \<Rightarrow> 's rendering" where
  "RenderMarkdown env md s = RenderMarkdownWithPath env md [] s"

text \<open>
  Lines 92 to 103 of \<^verbatim>\<open>RenderMarkdownFile\<close>: the value of \<^verbatim>\<open>relPath\<close> that is passed to
  \<^verbatim>\<open>RenderMarkdownWithPath\<close>, computed from the file path alone.
\<close>

definition relPathOf :: "string \<Rightarrow> string" where
  "relPathOf filePath =
     (let docDir = Dir filePath;
          relPath = (case Rel (Join [''data'', ''documents'']) docDir of
                       Inr relPath \<Rightarrow> relPath
                     | Inl err \<Rightarrow> Base docDir)
      in backslashesToSlashes relPath)"

text \<open>
  \<^verbatim>\<open>os.ReadFile\<close> is the parameter \<open>ReadFile\<close>: the content of the file or an error of
  any type \<open>'e\<close>. The result is the pair that the Go function returns, \<open>Inl\<close> for
  \<^verbatim>\<open>(nil, err)\<close>, with the collaborators' state and the calls made.
\<close>

definition RenderMarkdownFile ::
  "'s collaborators \<Rightarrow> (string \<Rightarrow> 'e + string) \<Rightarrow> string \<Rightarrow> 's \<Rightarrow> ('e + string) \<times> 's \<times> call list" where
  "RenderMarkdownFile env ReadFile filePath s =
     (case ReadFile filePath of
        Inl err \<Rightarrow> (Inl err, s, [])
      | Inr mdContent \<Rightarrow>
          (let r = RenderMarkdownWithPath env mdContent (relPathOf filePath) s
           in (Inr (page r), final r, calls r)))"

subsection \<open>A small instance of the collaborators\<close>

text \<open>
  An instance of the collaborators, on which the theorems below are exercised. The state
  counts the calls of \<^verbatim>\<open>ProcessMarkdown\<close>. A document that starts with \<^verbatim>\<open>kanban:\<close> or
  \<^verbatim>\<open>links:\<close> has frontmatter with that layout; the link list fails on an empty body; the
  engine fails on the body \<^verbatim>\<open>!\<close>; the two restoration passes append \<^verbatim>\<open>M\<close> and \<^verbatim>\<open>D\<close>, so
  that their order shows in the output.
\<close>

definition sampleParse :: "string \<Rightarrow> nat \<Rightarrow> (Metadata \<times> string \<times> bool) \<times> nat" where
  "sampleParse md s =
     (if HasPrefix md ''kanban:'' then ((\<lparr>Layout = ''kanban''\<rparr>, drop 7 md, True), s)
      else if HasPrefix md ''links:'' then ((\<lparr>Layout = ''links''\<rparr>, drop 6 md, True), s)
      else ((\<lparr>Layout = []\<rparr>, md, False), s))"

definition sampleKanban ::
  "string \<Rightarrow> nat PreprocessorFunc list \<Rightarrow> nat PostProcessorFunc list \<Rightarrow> nat \<Rightarrow> string \<times> nat" where
  "sampleKanban body preprocessors postProcessors s =
     (case postProcessors of
        [] \<Rightarrow> (''<board>'' @ body @ ''</board>'', s)
      | postProcessor # _ \<Rightarrow> postProcessor (''<board>'' @ body @ ''</board>'') s)"

definition sampleCollaborators :: "nat collaborators" where
  "sampleCollaborators =
     \<lparr>Parse = sampleParse,
      RegisteredPreprocessors = [None, Some (\<lambda>md docPath s. (md @ docPath, s))],
      RenderKanbanWithProcessors = sampleKanban,
      RenderLinks = (\<lambda>body s.
        if body = [] then ((''<ul>'', Some ''no links''), s)
        else ((''<ul>'' @ body @ ''</ul>'', None), s)),
      ProcessMarkdown = (\<lambda>md docPath s. (md, Suc s)),
      Convert = (\<lambda>md s.
        if md = ''!'' then (([], Some ''boom''), s) else ((''<p>'' @ md @ ''</p>'', None), s)),
      RestoreMermaidBlocks = (\<lambda>html s. (html @ ''M'', s)),
      RestoreDirectionBlocks = (\<lambda>html s. (html @ ''D'', s))\<rparr>"

definition sampleReadFile :: "string \<Rightarrow> string + string" where
  "sampleReadFile filePath =
     (if filePath = ''data/documents/team/page.md'' then Inr ''hello''
      else Inl ''no such file or directory'')"

section \<open>Properties\<close>

subsection \<open>The branches of \<^verbatim>\<open>RenderMarkdownWithPath\<close>\<close>

text \<open>
  A run of the default pipeline either stops at a failed conversion or goes through both
  restoration passes; a run of \<^verbatim>\<open>RenderMarkdownWithPath\<close> takes one of four ways.
\<close>

lemma defaultPipeline_cases:
  obtains
    (failed) md1 s1 buf err s2 where
      "ProcessMarkdown env md docPath s = (md1, s1)"
      "Convert env md1 s1 = ((buf, Some err), s2)"
      "defaultPipeline env md docPath s log =
         \<lparr>page = ''<p>Error rendering markdown with Goldmark: '' @ err @ ''</p>'',
          final = s2,
          calls = log @ [Call_ProcessMarkdown md docPath, Call_Convert md1 (Some err)]\<rparr>"
  | (converted) md1 s1 buf s2 where
      "ProcessMarkdown env md docPath s = (md1, s1)"
      "Convert env md1 s1 = ((buf, None), s2)"
      "defaultPipeline env md docPath s log =
         \<lparr>page = fst (RestoreDirectionBlocks env (fst (RestoreMermaidBlocks env buf s2))
                        (snd (RestoreMermaidBlocks env buf s2))),
          final = snd (RestoreDirectionBlocks env (fst (RestoreMermaidBlocks env buf s2))
                        (snd (RestoreMermaidBlocks env buf s2))),
          calls = log @ [Call_ProcessMarkdown md docPath, Call_Convert md1 None,
                         Call_RestoreMermaidBlocks buf,
                         Call_RestoreDirectionBlocks (fst (RestoreMermaidBlocks env buf s2))]\<rparr>"
proof -
  obtain md1 s1 where pm: "ProcessMarkdown env md docPath s = (md1, s1)"
    by (cases "ProcessMarkdown env md docPath s")
  obtain buf err s2 where cv: "Convert env md1 s1 = ((buf, err), s2)"
    by (cases "Convert env md1 s1") auto
  show thesis
  proof (cases err)
    case None
    with pm cv show thesis
      by (intro converted [of md1 s1 buf s2])
         (simp_all add: defaultPipeline_def split: prod.splits)
  next
    case (Some e)
    with pm cv show thesis
      by (intro failed [of md1 s1 buf e s2]) (simp_all add: defaultPipeline_def)
  qed
qed

lemma RenderMarkdownWithPath_cases:
  obtains
    (kanban) metadata body s1 where
      "Parse env md s = ((metadata, body, True), s1)"
      "Layout metadata = ''kanban''"
      "RenderMarkdownWithPath env md docPath s =
         \<lparr>page = fst (RenderKanbanWithProcessors env body
                        (wrapPreprocessors (RegisteredPreprocessors env) docPath)
                        [kanbanPostProcessor env] s1),
          final = snd (RenderKanbanWithProcessors env body
                        (wrapPreprocessors (RegisteredPreprocessors env) docPath)
                        [kanbanPostProcessor env] s1),
          calls = [Call_Parse md, Call_RenderKanbanWithProcessors body]\<rparr>"
  | (links) metadata body s1 linksHTML s2 where
      "Parse env md s = ((metadata, body, True), s1)"
      "Layout metadata = ''links''"
      "RenderLinks env body s1 = ((linksHTML, None), s2)"
      "RenderMarkdownWithPath env md docPath s =
         \<lparr>page = linksHTML, final = s2,
          calls = [Call_Parse md, Call_RenderLinks body None]\<rparr>"
  | (fallback) metadata body s1 linksHTML err s2 where
      "Parse env md s = ((metadata, body, True), s1)"
      "Layout metadata = ''links''"
      "RenderLinks env body s1 = ((linksHTML, Some err), s2)"
      "RenderMarkdownWithPath env md docPath s =
         defaultPipeline env body docPath s2 [Call_Parse md, Call_RenderLinks body (Some err)]"
  | (plain) metadata body hasFrontmatter s1 where
      "Parse env md s = ((metadata, body, hasFrontmatter), s1)"
      "\<not> (hasFrontmatter \<and> Layout metadata = ''kanban'')"
      "\<not> (hasFrontmatter \<and> Layout metadata = ''links'')"
      "RenderMarkdownWithPath env md docPath s =
         defaultPipeline env (if hasFrontmatter then body else md) docPath s1 [Call_Parse md]"
proof -
  obtain metadata body hasFrontmatter s1
    where p: "Parse env md s = ((metadata, body, hasFrontmatter), s1)"
    by (cases "Parse env md s") auto
  consider (k) "hasFrontmatter" "Layout metadata = ''kanban''"
    | (l) "hasFrontmatter" "Layout metadata = ''links''"
    | (d) "\<not> (hasFrontmatter \<and> Layout metadata = ''kanban'')"
          "\<not> (hasFrontmatter \<and> Layout metadata = ''links'')"
    by blast
  then show thesis
  proof cases
    case k
    with p show thesis
      by (intro kanban [of metadata body s1])
         (simp_all add: RenderMarkdownWithPath_def split: prod.splits)
  next
    case l
    obtain linksHTML err s2 where rl: "RenderLinks env body s1 = ((linksHTML, err), s2)"
      by (cases "RenderLinks env body s1") auto
    show thesis
    proof (cases err)
      case None
      with p l rl show thesis
        by (intro links [of metadata body s1 linksHTML s2])
           (simp_all add: RenderMarkdownWithPath_def)
    next
      case (Some e)
      with p l rl show thesis
        by (intro fallback [of metadata body s1 linksHTML e s2])
           (simp_all add: RenderMarkdownWithPath_def)
    qed
  next
    case d
    with p show thesis
      by (intro plain [of metadata body hasFrontmatter s1])
         (auto simp add: RenderMarkdownWithPath_def)
  qed
qed


lemma kanbanPostProcessor_Convert_update:
  "kanbanPostProcessor (env\<lparr>Convert := convert\<rparr>) = kanbanPostProcessor env"
  by (intro ext) (simp add: kanbanPostProcessor_def)

subsection \<open>The link renderer\<close>

lemma ToLower_bar_PDF: "ToLower ''/api/files/foo/bar.PDF'' = ''/api/files/foo/bar.pdf''"
  by code_simp

lemma HasPrefix_bar_pdf: "HasPrefix ''/api/files/foo/bar.pdf'' ''/api/files/''"
  by code_simp

lemma HasSuffix_bar_pdf: "HasSuffix ''/api/files/foo/bar.pdf'' ''.pdf''"
  by code_simp

lemma TrimPrefix_bar_PDF: "TrimPrefix ''/api/files/foo/bar.PDF'' ''/api/files'' = ''/foo/bar.PDF''"
  by code_simp

lemma Dir_foo_bar_PDF: "Dir ''/foo/bar.PDF'' = ''/foo''"
  by code_simp

lemma Base_foo_bar_PDF: "Base ''/foo/bar.PDF'' = ''bar.PDF''"
  by code_simp

lemma EscapeHTML_foo: "EscapeHTML ''/foo'' = ''/foo''"
  by code_simp

text \<open>
  Claim C1. For the document \<^verbatim>\<open>[x](/api/files/foo/bar.PDF)\<close> the link node has the
  destination \<^verbatim>\<open>/api/files/foo/bar.PDF\<close> and its text is the byte \<^verbatim>\<open>x\<close> of the source. On
  entering that node \<^verbatim>\<open>renderLink\<close> hands exactly one string to the writer, the anchor
  with href \<^verbatim>\<open>/foo?mode=pdf&file=bar.PDF\<close> and text \<^verbatim>\<open>x\<close>, and skips the children (or
  stops, if the writer fails); on the buffer of the default pipeline the anchor is
  appended.
\<close>

theorem renderLink_pdf_link:
  \<open>renderLink WriteString w ''[x](/api/files/foo/bar.PDF)''
       \<lparr>Destination = ''/api/files/foo/bar.PDF'', Text = (\<lambda>source. take 1 (drop 1 source))\<rparr>
       True
     = (case WriteString w ''<a href="/foo?mode=pdf&file=bar.PDF">x</a>'' of
          (w', Some err) \<Rightarrow> (w', WalkStop, Some err)
        | (w', None) \<Rightarrow> (w', WalkSkipChildren, None))
   \<and> renderLink bufferWriteString buf ''[x](/api/files/foo/bar.PDF)''
       \<lparr>Destination = ''/api/files/foo/bar.PDF'', Text = (\<lambda>source. take 1 (drop 1 source))\<rparr>
       True
     = (buf @ ''<a href="/foo?mode=pdf&file=bar.PDF">x</a>'', WalkSkipChildren, None)\<close>
  by (simp add: renderLink_def Let_def bufferWriteString_def ToLower_bar_PDF HasPrefix_bar_pdf
        HasSuffix_bar_pdf TrimPrefix_bar_PDF Dir_foo_bar_PDF Base_foo_bar_PDF EscapeHTML_foo)

lemma ToLower_example_com: "ToLower ''https://example.com/doc.pdf'' = ''https://example.com/doc.pdf''"
  by code_simp

lemma HasPrefix_example_com: "\<not> HasPrefix ''https://example.com/doc.pdf'' ''/api/files/''"
  by code_simp

lemma EscapeHTML_example_com: "EscapeHTML ''https://example.com/doc.pdf'' = ''https://example.com/doc.pdf''"
  by code_simp

text \<open>
  Claim C8. For the document \<^verbatim>\<open>[x](https://example.com/doc.pdf)\<close> the destination does
  not start with \<^verbatim>\<open>/api/files/\<close>. On entering the link node \<^verbatim>\<open>renderLink\<close> hands the
  writer exactly the anchor with the escaped destination as href (escaping leaves this
  destination as it is), \<^verbatim>\<open>target="_blank"\<close> and the text \<^verbatim>\<open>x\<close>, and skips the children.
\<close>

theorem renderLink_other_link:
  \<open>renderLink WriteString w ''[x](https://example.com/doc.pdf)''
       \<lparr>Destination = ''https://example.com/doc.pdf'', Text = (\<lambda>source. take 1 (drop 1 source))\<rparr>
       True
     = (case WriteString w ''<a href="https://example.com/doc.pdf" target="_blank">x</a>'' of
          (w', Some err) \<Rightarrow> (w', WalkStop, Some err)
        | (w', None) \<Rightarrow> (w', WalkSkipChildren, None))
   \<and> renderLink bufferWriteString buf ''[x](https://example.com/doc.pdf)''
       \<lparr>Destination = ''https://example.com/doc.pdf'', Text = (\<lambda>source. take 1 (drop 1 source))\<rparr>
       True
     = (buf @ ''<a href="https://example.com/doc.pdf" target="_blank">x</a>'',
        WalkSkipChildren, None)
   \<and> EscapeHTML ''https://example.com/doc.pdf'' = ''https://example.com/doc.pdf''\<close>
  by (simp add: renderLink_def Let_def bufferWriteString_def ToLower_example_com
        HasPrefix_example_com EscapeHTML_example_com)

lemma ToLower_API_Files: "ToLower ''/API/Files/foo/bar.pdf'' = ''/api/files/foo/bar.pdf''"
  by code_simp

lemma TrimPrefix_API_Files: "TrimPrefix ''/API/Files/foo/bar.pdf'' ''/api/files'' = ''/API/Files/foo/bar.pdf''"
  by code_simp

lemma Dir_API_Files: "Dir ''/API/Files/foo/bar.pdf'' = ''/API/Files/foo''"
  by code_simp

lemma Base_API_Files: "Base ''/API/Files/foo/bar.pdf'' = ''bar.pdf''"
  by code_simp

lemma EscapeHTML_API_Files: "EscapeHTML ''/API/Files/foo'' = ''/API/Files/foo''"
  by code_simp

text \<open>
  Claim C2, at the destination \<^verbatim>\<open>/API/Files/foo/bar.pdf\<close>. The test of line 57 is made on
  the lower-cased destination and succeeds; \<^verbatim>\<open>strings.TrimPrefix\<close> of line 58 compares the
  destination itself with \<^verbatim>\<open>/api/files\<close>, byte by byte, and returns it whole. The href
  that is written keeps the prefix: \<^verbatim>\<open>/API/Files/foo?mode=pdf&file=bar.pdf\<close>.
\<close>

theorem renderLink_upper_case_prefix_not_stripped:
  \<open>HasPrefix (ToLower ''/API/Files/foo/bar.pdf'') ''/api/files/''
   \<and> HasSuffix (ToLower ''/API/Files/foo/bar.pdf'') ''.pdf''
   \<and> TrimPrefix ''/API/Files/foo/bar.pdf'' ''/api/files'' = ''/API/Files/foo/bar.pdf''
   \<and> renderLink bufferWriteString buf ''[x](/API/Files/foo/bar.pdf)''
       \<lparr>Destination = ''/API/Files/foo/bar.pdf'', Text = (\<lambda>source. take 1 (drop 1 source))\<rparr>
       True
     = (buf @ ''<a href="/API/Files/foo?mode=pdf&file=bar.pdf">x</a>'', WalkSkipChildren, None)\<close>
  by (simp add: renderLink_def Let_def bufferWriteString_def ToLower_API_Files
        HasPrefix_bar_pdf HasSuffix_bar_pdf TrimPrefix_API_Files Dir_API_Files
        Base_API_Files EscapeHTML_API_Files)

subsection \<open>Layout dispatch\<close>

text \<open>
  Claim C4. When \<^verbatim>\<open>frontmatter.Parse\<close> reports frontmatter whose layout is \<^verbatim>\<open>kanban\<close>, the
  render returns what the board renderer returns on the content without frontmatter (with
  the wrapped preprocessors and the one restoring post-processor), the only calls it makes
  are to \<^verbatim>\<open>Parse\<close> and to the board renderer, so the engine's conversion is not among them,
  and the result is the same whatever the engine's conversion function is.
\<close>

theorem kanban_layout_uses_board_renderer:
  assumes "Parse env md s = ((metadata, body, True), s1)"
    and "Layout metadata = ''kanban''"
  shows "RenderMarkdownWithPath env md docPath s =
           \<lparr>page = fst (RenderKanbanWithProcessors env body
                          (wrapPreprocessors (RegisteredPreprocessors env) docPath)
                          [kanbanPostProcessor env] s1),
            final = snd (RenderKanbanWithProcessors env body
                          (wrapPreprocessors (RegisteredPreprocessors env) docPath)
                          [kanbanPostProcessor env] s1),
            calls = [Call_Parse md, Call_RenderKanbanWithProcessors body]\<rparr>
         \<and> (\<forall>md1 err. Call_Convert md1 err \<notin> set (calls (RenderMarkdownWithPath env md docPath s)))
         \<and> (\<forall>convert. RenderMarkdownWithPath (env\<lparr>Convert := convert\<rparr>) md docPath s =
                        RenderMarkdownWithPath env md docPath s)"
proof -
  have run: "RenderMarkdownWithPath env md docPath s =
           \<lparr>page = fst (RenderKanbanWithProcessors env body
                          (wrapPreprocessors (RegisteredPreprocessors env) docPath)
                          [kanbanPostProcessor env] s1),
            final = snd (RenderKanbanWithProcessors env body
                          (wrapPreprocessors (RegisteredPreprocessors env) docPath)
                          [kanbanPostProcessor env] s1),
            calls = [Call_Parse md, Call_RenderKanbanWithProcessors body]\<rparr>"
    using assms by (simp add: RenderMarkdownWithPath_def split: prod.splits)
  have indep: "RenderMarkdownWithPath (env\<lparr>Convert := convert\<rparr>) md docPath s =
               RenderMarkdownWithPath env md docPath s" for convert
    using assms
    by (simp add: RenderMarkdownWithPath_def kanbanPostProcessor_Convert_update)
  from run indep show ?thesis by simp
qed

theorem kanban_layout_witness:
  "RenderMarkdownWithPath sampleCollaborators ''kanban:abc'' ''team'' 0 =
     \<lparr>page = ''<board>abc</board>MD'', final = 0,
      calls = [Call_Parse ''kanban:abc'', Call_RenderKanbanWithProcessors ''abc'']\<rparr>"
proof -
  have p: "Parse sampleCollaborators ''kanban:abc'' 0 = ((\<lparr>Layout = ''kanban''\<rparr>, ''abc'', True), 0)"
    by (simp add: sampleCollaborators_def sampleParse_def)
  have l: "Layout \<lparr>Layout = ''kanban''\<rparr> = ''kanban''"
    by simp
  from kanban_layout_uses_board_renderer [OF p l, of "''team''"]
  show ?thesis
    by (simp add: sampleCollaborators_def sampleKanban_def kanbanPostProcessor_def)
qed

text \<open>
  Claim C5. When \<^verbatim>\<open>frontmatter.Parse\<close> reports frontmatter whose layout is \<^verbatim>\<open>links\<close>: if
  the link-list renderer returns an error, the render is the default pipeline on the
  content without frontmatter, from the state the link-list renderer left, whatever string
  came with the error, and the error goes no further than the log of calls; if it returns
  no error, its HTML is the page and nothing else is called.
\<close>

theorem links_layout_falls_back_on_failure:
  assumes "Parse env md s = ((metadata, body, True), s1)"
    and "Layout metadata = ''links''"
  shows "(\<forall>linksHTML err s2.
            RenderLinks env body s1 = ((linksHTML, Some err), s2) \<longrightarrow>
            RenderMarkdownWithPath env md docPath s =
              defaultPipeline env body docPath s2
                [Call_Parse md, Call_RenderLinks body (Some err)])
         \<and> (\<forall>linksHTML s2.
            RenderLinks env body s1 = ((linksHTML, None), s2) \<longrightarrow>
            RenderMarkdownWithPath env md docPath s =
              \<lparr>page = linksHTML, final = s2,
               calls = [Call_Parse md, Call_RenderLinks body None]\<rparr>)"
  using assms by (simp add: RenderMarkdownWithPath_def)

theorem links_layout_witness:
  "page (RenderMarkdownWithPath sampleCollaborators ''links:'' ''team'' 0) = ''<p></p>MD''
   \<and> page (defaultPipeline sampleCollaborators [] ''team'' 0
             [Call_Parse ''links:'', Call_RenderLinks [] (Some ''no links'')]) = ''<p></p>MD''
   \<and> page (RenderMarkdownWithPath sampleCollaborators ''links:abc'' ''team'' 0) = ''<ul>abc</ul>''"
proof -
  have p1: "Parse sampleCollaborators ''links:'' 0 = ((\<lparr>Layout = ''links''\<rparr>, [], True), 0)"
    by (simp add: sampleCollaborators_def sampleParse_def)
  have p2: "Parse sampleCollaborators ''links:abc'' 0 = ((\<lparr>Layout = ''links''\<rparr>, ''abc'', True), 0)"
    by (simp add: sampleCollaborators_def sampleParse_def)
  have l: "Layout \<lparr>Layout = ''links''\<rparr> = ''links''"
    by simp
  have r1: "RenderLinks sampleCollaborators [] 0 = ((''<ul>'', Some ''no links''), 0)"
    by (simp add: sampleCollaborators_def)
  have r2: "RenderLinks sampleCollaborators ''abc'' 0 = ((''<ul>abc</ul>'', None), 0)"
    by (simp add: sampleCollaborators_def)
  have d: "page (defaultPipeline sampleCollaborators [] ''team'' 0
             [Call_Parse ''links:'', Call_RenderLinks [] (Some ''no links'')]) = ''<p></p>MD''"
    by (simp add: defaultPipeline_def sampleCollaborators_def)
  from links_layout_falls_back_on_failure [OF p1 l, of "''team''"] r1
  have a: "RenderMarkdownWithPath sampleCollaborators ''links:'' ''team'' 0 =
           defaultPipeline sampleCollaborators [] ''team'' 0
             [Call_Parse ''links:'', Call_RenderLinks [] (Some ''no links'')]"
    by blast
  from links_layout_falls_back_on_failure [OF p2 l, of "''team''"] r2
  have b: "RenderMarkdownWithPath sampleCollaborators ''links:abc'' ''team'' 0 =
           \<lparr>page = ''<ul>abc</ul>'', final = 0,
            calls = [Call_Parse ''links:abc'', Call_RenderLinks ''abc'' None]\<rparr>"
    by blast
  from a b d show ?thesis by simp
qed

subsection \<open>The order of the restoration passes\<close>

text \<open>
  Claim C6. The post-processor restores the diagram blocks and gives the result, with the
  state that pass left, to the restoration of the directional blocks; in the kanban
  branch the page is what the board renderer returns when handed that post-processor and
  no other. In a render whose conversion succeeded, the last three calls are the
  conversion, the diagram restoration on the buffer the conversion wrote, and the
  directional restoration on what the diagram restoration returned; the page is what the
  directional restoration returned.
\<close>

theorem restoration_order:
  "kanbanPostProcessor env html s =
     RestoreDirectionBlocks env (fst (RestoreMermaidBlocks env html s))
       (snd (RestoreMermaidBlocks env html s))
   \<and> (Parse env md s0 = ((metadata, body, True), s') \<and> Layout metadata = ''kanban'' \<longrightarrow>
        page (RenderMarkdownWithPath env md docPath s0) =
          fst (RenderKanbanWithProcessors env body
                (wrapPreprocessors (RegisteredPreprocessors env) docPath)
                [kanbanPostProcessor env] s'))
   \<and> (Call_Convert md1 None \<in> set (calls (RenderMarkdownWithPath env md docPath s0)) \<longrightarrow>
        (\<exists>log buf s1 s2.
           Convert env md1 s1 = ((buf, None), s2)
           \<and> calls (RenderMarkdownWithPath env md docPath s0) =
               log @ [Call_Convert md1 None, Call_RestoreMermaidBlocks buf,
                      Call_RestoreDirectionBlocks (fst (RestoreMermaidBlocks env buf s2))]
           \<and> page (RenderMarkdownWithPath env md docPath s0) =
               fst (RestoreDirectionBlocks env (fst (RestoreMermaidBlocks env buf s2))
                     (snd (RestoreMermaidBlocks env buf s2)))))"
proof (intro conjI impI)
  show "kanbanPostProcessor env html s =
     RestoreDirectionBlocks env (fst (RestoreMermaidBlocks env html s))
       (snd (RestoreMermaidBlocks env html s))"
    by (simp add: kanbanPostProcessor_def split: prod.splits)
next
  assume "Parse env md s0 = ((metadata, body, True), s') \<and> Layout metadata = ''kanban''"
  then show "page (RenderMarkdownWithPath env md docPath s0) =
          fst (RenderKanbanWithProcessors env body
                (wrapPreprocessors (RegisteredPreprocessors env) docPath)
                [kanbanPostProcessor env] s')"
    by (simp add: RenderMarkdownWithPath_def split: prod.splits)
next
  let ?R = "RenderMarkdownWithPath env md docPath s0"
  assume conv: "Call_Convert md1 None \<in> set (calls ?R)"
  have pipeline: "\<exists>log buf s1 s2.
           Convert env md1 s1 = ((buf, None), s2)
           \<and> calls (defaultPipeline env md' docPath s' log0) =
               log @ [Call_Convert md1 None, Call_RestoreMermaidBlocks buf,
                      Call_RestoreDirectionBlocks (fst (RestoreMermaidBlocks env buf s2))]
           \<and> page (defaultPipeline env md' docPath s' log0) =
               fst (RestoreDirectionBlocks env (fst (RestoreMermaidBlocks env buf s2))
                     (snd (RestoreMermaidBlocks env buf s2)))"
    if mem: "Call_Convert md1 None \<in> set (calls (defaultPipeline env md' docPath s' log0))"
      and log0: "Call_Convert md1 None \<notin> set log0"
    for md' s' log0
  proof (cases rule: defaultPipeline_cases [of env md' docPath s' log0])
    case (failed m s1 buf err s2)
    with mem log0 show ?thesis by simp
  next
    case (converted m s1 buf s2)
    with mem log0 have "m = md1" by simp
    with converted show ?thesis
      by (intro exI [of _ "log0 @ [Call_ProcessMarkdown md' docPath]"] exI [of _ buf]
            exI [of _ s1] exI [of _ s2]) simp
  qed
  show "\<exists>log buf s1 s2.
           Convert env md1 s1 = ((buf, None), s2)
           \<and> calls ?R =
               log @ [Call_Convert md1 None, Call_RestoreMermaidBlocks buf,
                      Call_RestoreDirectionBlocks (fst (RestoreMermaidBlocks env buf s2))]
           \<and> page ?R =
               fst (RestoreDirectionBlocks env (fst (RestoreMermaidBlocks env buf s2))
                     (snd (RestoreMermaidBlocks env buf s2)))"
  proof (cases rule: RenderMarkdownWithPath_cases [of env md s0 docPath])
    case (kanban metadata body s1)
    with conv show ?thesis by simp
  next
    case (links metadata body s1 linksHTML s2)
    with conv show ?thesis by simp
  next
    case (fallback metadata body s1 linksHTML err s2)
    with conv pipeline [of body s2 "[Call_Parse md, Call_RenderLinks body (Some err)]"]
    show ?thesis by simp
  next
    case (plain metadata body hasFrontmatter s1)
    with conv pipeline [of "if hasFrontmatter then body else md" s1 "[Call_Parse md]"]
    show ?thesis by simp
  qed
qed

theorem restoration_order_witness:
  "kanbanPostProcessor sampleCollaborators ''<p>'' 0 = (''<p>MD'', 0)
   \<and> page (RenderMarkdownWithPath sampleCollaborators ''kanban:abc'' ''team'' 0)
       = ''<board>abc</board>MD''
   \<and> page (RenderMarkdownWithPath sampleCollaborators ''hello'' ''team'' 0) = ''<p>hello</p>MD''
   \<and> fst (RestoreMermaidBlocks sampleCollaborators
            (fst (RestoreDirectionBlocks sampleCollaborators ''<p>hello</p>'' 1)) 1)
       = ''<p>hello</p>DM''"
proof -
  let ?R = "RenderMarkdownWithPath sampleCollaborators ''hello'' ''team'' 0"
  let ?K = "RenderMarkdownWithPath sampleCollaborators ''kanban:abc'' ''team'' 0"
  have run: "calls ?R =
      [Call_Parse ''hello'', Call_ProcessMarkdown ''hello'' ''team'',
       Call_Convert ''hello'' None, Call_RestoreMermaidBlocks ''<p>hello</p>'',
       Call_RestoreDirectionBlocks ''<p>hello</p>M'']"
    by (simp add: RenderMarkdownWithPath_def defaultPipeline_def sampleCollaborators_def
          sampleParse_def)
  then have mem: "Call_Convert ''hello'' None \<in> set (calls ?R)"
    by simp
  have conv: "Convert sampleCollaborators ''hello'' s1 = ((buf, None), s2)
      \<Longrightarrow> buf = ''<p>hello</p>''" for s1 s2 buf
    by (simp add: sampleCollaborators_def)
  have rest: "fst (RestoreDirectionBlocks sampleCollaborators
                 (fst (RestoreMermaidBlocks sampleCollaborators ''<p>hello</p>'' s2))
                 (snd (RestoreMermaidBlocks sampleCollaborators ''<p>hello</p>'' s2)))
              = ''<p>hello</p>MD''" for s2
    by (simp add: sampleCollaborators_def)
  have parse: "Parse sampleCollaborators ''kanban:abc'' 0
                 = ((\<lparr>Layout = ''kanban''\<rparr>, ''abc'', True), 0)
               \<and> Layout \<lparr>Layout = ''kanban''\<rparr> = ''kanban''"
    by (simp add: sampleCollaborators_def sampleParse_def)
  from restoration_order
         [of sampleCollaborators "''<p>''" 0 "''hello''" 0 _ _ _ "''team''" "''hello''"] mem
  obtain log buf s1 s2 where
    k: "kanbanPostProcessor sampleCollaborators ''<p>'' 0 =
          RestoreDirectionBlocks sampleCollaborators
            (fst (RestoreMermaidBlocks sampleCollaborators ''<p>'' 0))
            (snd (RestoreMermaidBlocks sampleCollaborators ''<p>'' 0))"
    and c: "Convert sampleCollaborators ''hello'' s1 = ((buf, None), s2)"
    and p: "page ?R =
          fst (RestoreDirectionBlocks sampleCollaborators
                (fst (RestoreMermaidBlocks sampleCollaborators buf s2))
                (snd (RestoreMermaidBlocks sampleCollaborators buf s2)))"
    by blast
  from conv [OF c] p rest have "page ?R = ''<p>hello</p>MD''"
    by simp
  moreover from k have post: "kanbanPostProcessor sampleCollaborators ''<p>'' 0 = (''<p>MD'', 0)"
    by (simp add: sampleCollaborators_def)
  moreover from restoration_order
         [of sampleCollaborators "''<p>''" 0 "''kanban:abc''" 0 "\<lparr>Layout = ''kanban''\<rparr>" "''abc''" 0
             "''team''" "''hello''"] parse
  have "page ?K =
          fst (RenderKanbanWithProcessors sampleCollaborators ''abc''
                (wrapPreprocessors (RegisteredPreprocessors sampleCollaborators) ''team'')
                [kanbanPostProcessor sampleCollaborators] 0)"
    by blast
  then have "page ?K = ''<board>abc</board>MD''"
    by (simp add: sampleCollaborators_def sampleKanban_def kanbanPostProcessor_def)
  moreover have "fst (RestoreMermaidBlocks sampleCollaborators
            (fst (RestoreDirectionBlocks sampleCollaborators ''<p>hello</p>'' 1)) 1)
       = ''<p>hello</p>DM''"
    by (simp add: sampleCollaborators_def)
  ultimately show ?thesis by simp
qed

subsection \<open>A failed conversion\<close>

lemma failed_conversion_run:
  assumes "Call_Convert md1 (Some err) \<in> set (calls (RenderMarkdownWithPath env md docPath s))"
  obtains md' s' log buf s1 s2 where
    "RenderMarkdownWithPath env md docPath s = defaultPipeline env md' docPath s' log"
    "ProcessMarkdown env md' docPath s' = (md1, s1)"
    "Convert env md1 s1 = ((buf, Some err), s2)"
    "RenderMarkdownWithPath env md docPath s =
       \<lparr>page = ''<p>Error rendering markdown with Goldmark: '' @ err @ ''</p>'',
        final = s2,
        calls = log @ [Call_ProcessMarkdown md' docPath, Call_Convert md1 (Some err)]\<rparr>"
proof -
  note found = that
  let ?R = "RenderMarkdownWithPath env md docPath s"
  have pipeline: thesis
    if run: "?R = defaultPipeline env md' docPath s' log"
      and log: "Call_Convert md1 (Some err) \<notin> set log"
    for md' s' log
  proof (cases rule: defaultPipeline_cases [of env md' docPath s' log])
    case (failed m s1 buf e s2)
    with assms run log have "m = md1" "e = err" by simp_all
    with failed run show ?thesis
      by (intro found [of md' s' log s1 buf s2]) simp_all
  next
    case (converted m s1 buf s2)
    with assms run log show ?thesis by simp
  qed
  show thesis
  proof (cases rule: RenderMarkdownWithPath_cases [of env md s docPath])
    case (kanban metadata body s1)
    with assms show ?thesis by simp
  next
    case (links metadata body s1 linksHTML s2)
    with assms show ?thesis by simp
  next
    case (fallback m b s1 linksHTML e s2)
    then show ?thesis
      by (intro pipeline [of b s2 "[Call_Parse md, Call_RenderLinks b (Some e)]"]) auto
  next
    case (plain m b h s1)
    then show ?thesis
      by (intro pipeline [of "if h then b else md" s1 "[Call_Parse md]"]) auto
  qed
qed

text \<open>
  Claim C7. If, in a render, the engine's conversion returned an error, the page is the
  paragraph \<^verbatim>\<open><p>Error rendering markdown with Goldmark: \<close> followed by the text of the
  error and \<^verbatim>\<open></p>\<close>. (The render returns a page and nothing else to fail with: the Go
  function returns \<^verbatim>\<open>[]byte\<close> only.)
\<close>

theorem convert_failure_renders_error_fragment:
  assumes "Call_Convert md1 (Some err) \<in> set (calls (RenderMarkdownWithPath env md docPath s))"
  shows "page (RenderMarkdownWithPath env md docPath s) =
           ''<p>Error rendering markdown with Goldmark: '' @ err @ ''</p>''"
proof -
  from assms obtain s2 log where
    "RenderMarkdownWithPath env md docPath s =
       \<lparr>page = ''<p>Error rendering markdown with Goldmark: '' @ err @ ''</p>'',
        final = s2, calls = log\<rparr>"
    by (rule failed_conversion_run) blast
  then show ?thesis by simp
qed

theorem convert_failure_witness:
  "page (RenderMarkdownWithPath sampleCollaborators ''!'' ''team'' 0) =
     ''<p>Error rendering markdown with Goldmark: boom</p>''"
proof -
  have "calls (RenderMarkdownWithPath sampleCollaborators ''!'' ''team'' 0) =
      [Call_Parse ''!'', Call_ProcessMarkdown ''!'' ''team'', Call_Convert ''!'' (Some ''boom'')]"
    by (simp add: RenderMarkdownWithPath_def defaultPipeline_def sampleCollaborators_def
          sampleParse_def)
  then have "Call_Convert ''!'' (Some ''boom'')
      \<in> set (calls (RenderMarkdownWithPath sampleCollaborators ''!'' ''team'' 0))"
    by simp
  from convert_failure_renders_error_fragment [OF this] show ?thesis
    by simp
qed

lemma restoration_update_irrelevant:
  assumes "Call_Convert md1 (Some err) \<in> set (calls (RenderMarkdownWithPath env md docPath s))"
  shows "RenderMarkdownWithPath
           (env\<lparr>RestoreMermaidBlocks := mermaid, RestoreDirectionBlocks := direction\<rparr>)
           md docPath s
         = RenderMarkdownWithPath env md docPath s"
  using assms
  by (auto simp: RenderMarkdownWithPath_def defaultPipeline_def
      split: prod.splits option.splits if_splits)

text \<open>
  Claim C10. If, in a render, the engine's conversion returned an error, neither
  restoration pass is among the calls of the render, the collaborators' state at the end
  is the state the failed conversion left, and the render is the same whatever the two
  restoration functions are.
\<close>

theorem convert_failure_skips_restoration:
  assumes "Call_Convert md1 (Some err) \<in> set (calls (RenderMarkdownWithPath env md docPath s))"
  shows "(\<forall>html. Call_RestoreMermaidBlocks html
             \<notin> set (calls (RenderMarkdownWithPath env md docPath s)))
       \<and> (\<forall>html. Call_RestoreDirectionBlocks html
             \<notin> set (calls (RenderMarkdownWithPath env md docPath s)))
       \<and> (\<exists>buf s1. Convert env md1 s1
             = ((buf, Some err), final (RenderMarkdownWithPath env md docPath s)))
       \<and> (\<forall>mermaid direction.
            RenderMarkdownWithPath
              (env\<lparr>RestoreMermaidBlocks := mermaid, RestoreDirectionBlocks := direction\<rparr>)
              md docPath s
            = RenderMarkdownWithPath env md docPath s)"
proof -
  let ?R = "RenderMarkdownWithPath env md docPath s"
  have no_restore: "(\<forall>html. Call_RestoreMermaidBlocks html \<notin> set (calls ?R))
       \<and> (\<forall>html. Call_RestoreDirectionBlocks html \<notin> set (calls ?R))
       \<and> (\<exists>buf s1. Convert env md1 s1 = ((buf, Some err), final ?R))"
  proof (cases rule: RenderMarkdownWithPath_cases [of env md s docPath])
    case (kanban metadata body s1)
    with assms show ?thesis by simp
  next
    case (links metadata body s1 linksHTML s2)
    with assms show ?thesis by simp
  next
    case (fallback metadata body s1 linksHTML e s2)
    show ?thesis
    proof (cases rule: defaultPipeline_cases
        [of env body docPath s2 "[Call_Parse md, Call_RenderLinks body (Some e)]"])
      case (failed m t1 buf e' t2)
      with assms fallback show ?thesis by auto
    next
      case (converted m t1 buf t2)
      with assms fallback show ?thesis by simp
    qed
  next
    case (plain metadata body hasFrontmatter s1)
    show ?thesis
    proof (cases rule: defaultPipeline_cases
        [of env "if hasFrontmatter then body else md" docPath s1 "[Call_Parse md]"])
      case (failed m t1 buf e' t2)
      with assms plain show ?thesis by auto
    next
      case (converted m t1 buf t2)
      with assms plain show ?thesis by simp
    qed
  qed
  with restoration_update_irrelevant [OF assms] show ?thesis
    by simp
qed

theorem convert_failure_skips_restoration_witness:
  "(\<forall>html. Call_RestoreMermaidBlocks html
       \<notin> set (calls (RenderMarkdownWithPath sampleCollaborators ''!'' ''team'' 0)))
   \<and> (\<forall>html. Call_RestoreDirectionBlocks html
       \<notin> set (calls (RenderMarkdownWithPath sampleCollaborators ''!'' ''team'' 0)))
   \<and> final (RenderMarkdownWithPath sampleCollaborators ''!'' ''team'' 0) = 1
   \<and> page (RenderMarkdownWithPath
        (sampleCollaborators\<lparr>RestoreMermaidBlocks := (\<lambda>html s. ([], s)),
                             RestoreDirectionBlocks := (\<lambda>html s. ([], s))\<rparr>)
        ''!'' ''team'' 0)
     = ''<p>Error rendering markdown with Goldmark: boom</p>''"
proof -
  let ?R = "RenderMarkdownWithPath sampleCollaborators ''!'' ''team'' 0"
  have run: "?R =
      \<lparr>page = ''<p>Error rendering markdown with Goldmark: boom</p>'', final = 1,
       calls = [Call_Parse ''!'', Call_ProcessMarkdown ''!'' ''team'',
                Call_Convert ''!'' (Some ''boom'')]\<rparr>"
    by (simp add: RenderMarkdownWithPath_def defaultPipeline_def sampleCollaborators_def
          sampleParse_def)
  then have "Call_Convert ''!'' (Some ''boom'') \<in> set (calls ?R)"
    by simp
  from convert_failure_skips_restoration [OF this] run show ?thesis
    by simp
qed

subsection \<open>The file entry\<close>

lemma relPathOf_team_page: "relPathOf ''data/documents/team/page.md'' = ''team''"
  by code_simp

text \<open>
  Claim C3, with the document path that the code computes. For the file path
  \<^verbatim>\<open>data/documents/team/page.md\<close>, when the file can be read, \<^verbatim>\<open>RenderMarkdownFile\<close>
  returns what \<^verbatim>\<open>RenderMarkdownWithPath\<close> returns on the content with the document path
  \<^verbatim>\<open>team\<close>: the directory of the file, relative to \<^verbatim>\<open>data/documents\<close>.
\<close>

theorem file_entry_passes_containing_directory:
  assumes "ReadFile ''data/documents/team/page.md'' = Inr mdContent"
  shows "RenderMarkdownFile env ReadFile ''data/documents/team/page.md'' s =
           (Inr (page (RenderMarkdownWithPath env mdContent ''team'' s)),
            final (RenderMarkdownWithPath env mdContent ''team'' s),
            calls (RenderMarkdownWithPath env mdContent ''team'' s))"
  using assms by (simp add: RenderMarkdownFile_def Let_def relPathOf_team_page)

theorem file_entry_witness:
  "RenderMarkdownFile sampleCollaborators sampleReadFile ''data/documents/team/page.md'' 0 =
     (Inr ''<p>hello</p>MD'', 1,
      [Call_Parse ''hello'', Call_ProcessMarkdown ''hello'' ''team'',
       Call_Convert ''hello'' None, Call_RestoreMermaidBlocks ''<p>hello</p>'',
       Call_RestoreDirectionBlocks ''<p>hello</p>M''])"
proof -
  have r: "sampleReadFile ''data/documents/team/page.md'' = Inr ''hello''"
    by (simp add: sampleReadFile_def)
  have "RenderMarkdownWithPath sampleCollaborators ''hello'' ''team'' 0 =
      \<lparr>page = ''<p>hello</p>MD'', final = 1,
       calls = [Call_Parse ''hello'', Call_ProcessMarkdown ''hello'' ''team'',
                Call_Convert ''hello'' None, Call_RestoreMermaidBlocks ''<p>hello</p>'',
                Call_RestoreDirectionBlocks ''<p>hello</p>M'']\<rparr>"
    by (simp add: RenderMarkdownWithPath_def defaultPipeline_def sampleCollaborators_def
          sampleParse_def)
  with file_entry_passes_containing_directory
         [where ReadFile = sampleReadFile and env = sampleCollaborators and s = 0, OF r]
  show ?thesis by simp
qed

text \<open>
  Claim C3, as stated, fails: the document path is not \<^verbatim>\<open>team/page\<close>, and on the sample
  collaborators the result, whose list of calls holds the document path handed to
  \<^verbatim>\<open>ProcessMarkdown\<close>, differs from the render with \<^verbatim>\<open>team/page\<close>.
\<close>

theorem file_entry_team_page_counterexample:
  "relPathOf ''data/documents/team/page.md'' \<noteq> ''team/page''
   \<and> RenderMarkdownFile sampleCollaborators sampleReadFile ''data/documents/team/page.md'' 0 \<noteq>
       (Inr (page (RenderMarkdownWithPath sampleCollaborators ''hello'' ''team/page'' 0)),
        final (RenderMarkdownWithPath sampleCollaborators ''hello'' ''team/page'' 0),
        calls (RenderMarkdownWithPath sampleCollaborators ''hello'' ''team/page'' 0))"
  by (simp add: RenderMarkdownFile_def Let_def relPathOf_team_page sampleReadFile_def
        RenderMarkdownWithPath_def defaultPipeline_def sampleCollaborators_def sampleParse_def)

lemma page_cases:
  "(\<exists>body s1. page (RenderMarkdownWithPath env md docPath s) =
       fst (RenderKanbanWithProcessors env body
             (wrapPreprocessors (RegisteredPreprocessors env) docPath)
             [kanbanPostProcessor env] s1))
   \<or> (\<exists>body s1. page (RenderMarkdownWithPath env md docPath s) =
       fst (fst (RenderLinks env body s1)))
   \<or> (\<exists>err. page (RenderMarkdownWithPath env md docPath s) =
       ''<p>Error rendering markdown with Goldmark: '' @ err @ ''</p>'')
   \<or> (\<exists>html s3. page (RenderMarkdownWithPath env md docPath s) =
       fst (RestoreDirectionBlocks env html s3))"
proof -
  have pipeline:
    "(\<exists>err. page (defaultPipeline env md' docPath s' log) =
         ''<p>Error rendering markdown with Goldmark: '' @ err @ ''</p>'')
     \<or> (\<exists>html s3. page (defaultPipeline env md' docPath s' log) =
         fst (RestoreDirectionBlocks env html s3))" for md' s' log
  proof (cases rule: defaultPipeline_cases [of env md' docPath s' log])
    case (failed md1 s1 buf err s2)
    then have "page (defaultPipeline env md' docPath s' log) =
         ''<p>Error rendering markdown with Goldmark: '' @ err @ ''</p>''"
      by simp
    then show ?thesis by blast
  next
    case (converted md1 s1 buf s2)
    then have "page (defaultPipeline env md' docPath s' log) =
         fst (RestoreDirectionBlocks env (fst (RestoreMermaidBlocks env buf s2))
               (snd (RestoreMermaidBlocks env buf s2)))"
      by simp
    then show ?thesis by blast
  qed
  show ?thesis
  proof (cases rule: RenderMarkdownWithPath_cases [of env md s docPath])
    case (kanban metadata body s1)
    then have "page (RenderMarkdownWithPath env md docPath s) =
       fst (RenderKanbanWithProcessors env body
             (wrapPreprocessors (RegisteredPreprocessors env) docPath)
             [kanbanPostProcessor env] s1)"
      by simp
    then show ?thesis by blast
  next
    case (links metadata body s1 linksHTML s2)
    then have "page (RenderMarkdownWithPath env md docPath s) =
       fst (fst (RenderLinks env body s1))"
      by simp
    then show ?thesis by blast
  next
    case (fallback metadata body s1 linksHTML err s2)
    with pipeline [of body s2 "[Call_Parse md, Call_RenderLinks body (Some err)]"]
    show ?thesis by simp
  next
    case (plain metadata body hasFrontmatter s1)
    with pipeline [of "if hasFrontmatter then body else md" s1 "[Call_Parse md]"]
    show ?thesis by simp
  qed
qed

text \<open>
  Claim C9. \<^verbatim>\<open>RenderMarkdownFile\<close> returns an error exactly when \<^verbatim>\<open>os.ReadFile\<close> does: it
  is then that error, no collaborator has been called and their state is as before.
  Otherwise it returns the page of \<^verbatim>\<open>RenderMarkdownWithPath\<close>, which for every input is one
  of four: the board renderer's output, the link-list renderer's output, the error
  paragraph, or what the directional restoration returned.
\<close>

theorem read_error_is_the_only_failure:
  "(\<forall>err. ReadFile filePath = Inl err \<longrightarrow>
       RenderMarkdownFile env ReadFile filePath s = (Inl err, s, []))
   \<and> (\<forall>mdContent. ReadFile filePath = Inr mdContent \<longrightarrow>
       RenderMarkdownFile env ReadFile filePath s =
         (Inr (page (RenderMarkdownWithPath env mdContent (relPathOf filePath) s)),
          final (RenderMarkdownWithPath env mdContent (relPathOf filePath) s),
          calls (RenderMarkdownWithPath env mdContent (relPathOf filePath) s)))
   \<and> ((\<exists>err. fst (RenderMarkdownFile env ReadFile filePath s) = Inl err)
        = (\<exists>err. ReadFile filePath = Inl err))
   \<and> ((\<exists>body s1. page (RenderMarkdownWithPath env md docPath s) =
          fst (RenderKanbanWithProcessors env body
                (wrapPreprocessors (RegisteredPreprocessors env) docPath)
                [kanbanPostProcessor env] s1))
      \<or> (\<exists>body s1. page (RenderMarkdownWithPath env md docPath s) =
          fst (fst (RenderLinks env body s1)))
      \<or> (\<exists>err. page (RenderMarkdownWithPath env md docPath s) =
          ''<p>Error rendering markdown with Goldmark: '' @ err @ ''</p>'')
      \<or> (\<exists>html s3. page (RenderMarkdownWithPath env md docPath s) =
          fst (RestoreDirectionBlocks env html s3)))"
proof -
  have "(\<forall>err. ReadFile filePath = Inl err \<longrightarrow>
       RenderMarkdownFile env ReadFile filePath s = (Inl err, s, []))
   \<and> (\<forall>mdContent. ReadFile filePath = Inr mdContent \<longrightarrow>
       RenderMarkdownFile env ReadFile filePath s =
         (Inr (page (RenderMarkdownWithPath env mdContent (relPathOf filePath) s)),
          final (RenderMarkdownWithPath env mdContent (relPathOf filePath) s),
          calls (RenderMarkdownWithPath env mdContent (relPathOf filePath) s)))
   \<and> ((\<exists>err. fst (RenderMarkdownFile env ReadFile filePath s) = Inl err)
        = (\<exists>err. ReadFile filePath = Inl err))"
    by (cases "ReadFile filePath") (simp_all add: RenderMarkdownFile_def Let_def)
  with page_cases [of env md docPath s] show ?thesis
    by blast
qed

theorem read_error_witness:
  "RenderMarkdownFile sampleCollaborators sampleReadFile ''data/documents/team/other.md'' 0 =
     (Inl ''no such file or directory'', 0, [])
   \<and> fst (RenderMarkdownFile sampleCollaborators sampleReadFile ''data/documents/team/page.md'' 0)
     = Inr ''<p>hello</p>MD''"
proof -
  have e: "sampleReadFile ''data/documents/team/other.md'' = Inl ''no such file or directory''"
    by (simp add: sampleReadFile_def)
  have r: "sampleReadFile ''data/documents/team/page.md'' = Inr ''hello''"
    by (simp add: sampleReadFile_def)
  have p: "page (RenderMarkdownWithPath sampleCollaborators ''hello''
                  (relPathOf ''data/documents/team/page.md'') 0) = ''<p>hello</p>MD''"
    by (simp add: relPathOf_team_page RenderMarkdownWithPath_def defaultPipeline_def
          sampleCollaborators_def sampleParse_def)
  from read_error_is_the_only_failure
         [where ReadFile = sampleReadFile and filePath = "''data/documents/team/other.md''"
            and env = sampleCollaborators and s = 0] e
  have a: "RenderMarkdownFile sampleCollaborators sampleReadFile ''data/documents/team/other.md'' 0 =
     (Inl ''no such file or directory'', 0, [])"
    by blast
  from read_error_is_the_only_failure
         [where ReadFile = sampleReadFile and filePath = "''data/documents/team/page.md''"
            and env = sampleCollaborators and s = 0] r
  have "RenderMarkdownFile sampleCollaborators sampleReadFile ''data/documents/team/page.md'' 0 =
         (Inr (page (RenderMarkdownWithPath sampleCollaborators ''hello''
                       (relPathOf ''data/documents/team/page.md'') 0)),
          final (RenderMarkdownWithPath sampleCollaborators ''hello''
                       (relPathOf ''data/documents/team/page.md'') 0),
          calls (RenderMarkdownWithPath sampleCollaborators ''hello''
                       (relPathOf ''data/documents/team/page.md'') 0))"
    by blast
  with a p show ?thesis by simp
qed

end
